theory Spec2Isabelle
  imports Complex_Main
begin

section \<open>Python values and errors\<close>

text \<open>
  The exceptions the modelled code can meet. \<open>ValueError\<close> is what Python's
  \<open>range\<close> raises for a zero step, \<open>IndexError\<close> what indexing an empty list raises,
  \<open>FileNotFoundError\<close> and \<open>OSError\<close> what making a directory can raise; the other two
  stand for the failures of the raster library (opening, reading or writing a file;
  merging).
\<close>

datatype py_error =
  ValueError | IndexError | FileNotFoundError | OSError | RasterioIOError | MergeError

text \<open>
  Python's \<open>range(start, stop, step)\<close> on integers. The length is computed as the
  interpreter does: a zero step raises; for a positive step the bounds are
  \<open>lo = start\<close>, \<open>hi = stop\<close>, for a negative one they are swapped and the step negated;
  the range is empty when \<open>lo \<ge> hi\<close> and has \<open>(hi - lo - 1) div step + 1\<close> elements otherwise.
  Element \<open>k\<close> is \<open>start + k * step\<close>.
\<close>

definition range_length :: "int \<Rightarrow> int \<Rightarrow> int \<Rightarrow> nat" where
  "range_length start stop step =
     (let lo = (if 0 < step then start else stop);
          hi = (if 0 < step then stop else start);
          st = (if 0 < step then step else - step)
      in if hi \<le> lo then 0 else nat ((hi - lo - 1) div st + 1))"

definition py_range :: "int \<Rightarrow> int \<Rightarrow> int \<Rightarrow> py_error + int list" where
  "py_range start stop step =
     (if step = 0 then Inl ValueError
      else Inr (map (\<lambda>k. start + int k * step) [0..<range_length start stop step]))"

section \<open>The tiling partition\<close>

text \<open>The pixel window of the raster library: offsets and size, in pixels.\<close>

record window =
  col_off :: int
  row_off :: int
  win_width :: int
  win_height :: int

text \<open>
  The window loop of \<open>generate_tiles\<close>:
  \<^verbatim>\<open>
  cols = range(0, self.width, tile_size)
  rows = range(0, self.height, tile_size)
  for i in cols:
      for j in rows:
          w = min(tile_size, self.width - i)
          h = min(tile_size, self.height - j)
          window = Window(col_off=i, row_off=j, width=w, height=h)
  \<close>
  The result is the list of windows in the order the loop makes them.
\<close>

definition make_window :: "int \<Rightarrow> int \<Rightarrow> int \<Rightarrow> int \<Rightarrow> int \<Rightarrow> window" where
  "make_window W H tile_size i j =
     \<lparr>col_off = i, row_off = j,
      win_width = min tile_size (W - i), win_height = min tile_size (H - j)\<rparr>"

definition tile_windows :: "int \<Rightarrow> int \<Rightarrow> int \<Rightarrow> py_error + window list" where
  "tile_windows W H tile_size =
     (case py_range 0 W tile_size of
        Inl e \<Rightarrow> Inl e
      | Inr cols \<Rightarrow>
          (case py_range 0 H tile_size of
             Inl e \<Rightarrow> Inl e
           | Inr rows \<Rightarrow>
               Inr (concat (map (\<lambda>i. map (\<lambda>j. make_window W H tile_size i j) rows) cols))))"

text \<open>A window covers the pixel in column \<open>x\<close> and row \<open>y\<close> of the parent.\<close>

definition covers :: "window \<Rightarrow> int \<Rightarrow> int \<Rightarrow> bool" where
  "covers w x y =
     (col_off w \<le> x \<and> x < col_off w + win_width w \<and>
      row_off w \<le> y \<and> y < row_off w + win_height w)"

definition pixels_of :: "window \<Rightarrow> (int \<times> int) set" where
  "pixels_of w = {col_off w ..< col_off w + win_width w} \<times> {row_off w ..< row_off w + win_height w}"


definition window_size :: "window \<Rightarrow> int \<times> int" where
  "window_size w = (win_width w, win_height w)"

definition tile_sizes :: "int \<Rightarrow> int \<Rightarrow> int \<Rightarrow> py_error + (int \<times> int) list" where
  "tile_sizes W H tile_size = map_sum id (map window_size) (tile_windows W H tile_size)"

text \<open>
  The order of the loop: \<open>u\<close> comes before \<open>v\<close> when its column offset is smaller, or
  the column offsets agree and its row offset is smaller.
\<close>

definition emitted_before :: "window \<Rightarrow> window \<Rightarrow> bool" where
  "emitted_before u v =
     (col_off u < col_off v \<or> (col_off u = col_off v \<and> row_off u < row_off v))"

section \<open>Affine transforms\<close>

text \<open>
  Six coefficients: a pixel in column \<open>col\<close> and row \<open>row\<close> has the world coordinates
  \<open>(a * col + b * row + c, d * col + e * row + f)\<close>. The coefficients are taken as exact
  real numbers; the rounding of the machine's floating point numbers is not modelled.
\<close>

record affine =
  af_a :: real
  af_b :: real
  af_c :: real
  af_d :: real
  af_e :: real
  af_f :: real

definition pixelToWorld :: "affine \<Rightarrow> real \<Rightarrow> real \<Rightarrow> real \<times> real" where
  "pixelToWorld T col row =
     (af_a T * col + af_b T * row + af_c T, af_d T * col + af_e T * row + af_f T)"

text \<open>
  Modelled from the spec: \<open>window_transform\<close> is a method of the raster library's dataset
  and is not part of the repository's source. The spec describes it as the composition of
  the parent's transform with the pure pixel-space translation by the window's offsets.
  \<open>affine_compose T U\<close> is the transform that applies \<open>U\<close> and then \<open>T\<close>;
  \<open>translation dx dy\<close> moves a pixel by \<open>(dx, dy)\<close>.
\<close>

definition affine_compose :: "affine \<Rightarrow> affine \<Rightarrow> affine" where
  "affine_compose T U =
     \<lparr>af_a = af_a T * af_a U + af_b T * af_d U,
      af_b = af_a T * af_b U + af_b T * af_e U,
      af_c = af_a T * af_c U + af_b T * af_f U + af_c T,
      af_d = af_d T * af_a U + af_e T * af_d U,
      af_e = af_d T * af_b U + af_e T * af_e U,
      af_f = af_d T * af_c U + af_e T * af_f U + af_f T\<rparr>"

definition translation :: "real \<Rightarrow> real \<Rightarrow> affine" where
  "translation dx dy = \<lparr>af_a = 1, af_b = 0, af_c = dx, af_d = 0, af_e = 1, af_f = dy\<rparr>"

definition compose :: "affine \<Rightarrow> int \<Rightarrow> int \<Rightarrow> affine" where
  "compose T pixelDx pixelDy = affine_compose T (translation (of_int pixelDx) (of_int pixelDy))"

section \<open>The raster library and the world it acts on\<close>

text \<open>
  The values a metadata dictionary holds, the dictionary itself (a map from keys to
  values; \<open>update\<close> is map update) and the pixel array of the library: its shape is
  \<open>(count, height, width)\<close>.
\<close>

datatype pyval = PyNone | PyBool bool | PyInt int | PyStr string | PyAffine affine

type_synonym profile = "string \<rightharpoonup> pyval"

record ndarray =
  nd_count :: int
  nd_height :: int
  nd_width :: int
  nd_cells :: "int list"

text \<open>
  An opened dataset: the handle that \<open>rasterio.open\<close> returned and the attributes the
  code reads from it.
\<close>

record dataset =
  ds_handle :: nat
  ds_driver :: string
  ds_meta :: profile
  ds_profile :: profile
  ds_width :: int
  ds_height :: int
  ds_count :: int
  ds_crs :: pyval
  ds_is_tiled :: bool
  ds_transform :: affine
  ds_compression :: pyval

text \<open>
  The collaborators, as functions of their arguments: which paths exist, whether a
  directory can be made, what a directory listing returns, and whether opening, reading,
  merging and writing succeed.
\<close>

record env =
  path_exists :: "string \<Rightarrow> bool"
  makedirs :: "string \<Rightarrow> py_error option"
  glob :: "string \<Rightarrow> string list"
  open_read :: "string \<Rightarrow> py_error + dataset"
  read_window :: "dataset \<Rightarrow> window \<Rightarrow> py_error + ndarray"
  merge :: "dataset list \<Rightarrow> py_error + (ndarray \<times> affine)"
  open_write :: "string \<Rightarrow> profile \<Rightarrow> py_error option"
  write_data :: "string \<Rightarrow> ndarray \<Rightarrow> py_error option"

text \<open>
  The state the code changes: the handles opened and closed so far (a handle is the number
  of handles opened before it), the directories made, the files created by opening them
  for writing (with the metadata given), the arrays written, and what was printed.
\<close>

record world =
  handles_opened :: "nat list"
  handles_closed :: "nat list"
  dirs_made :: "string list"
  files_created :: "(string \<times> profile) list"
  files_written :: "(string \<times> ndarray) list"
  printed :: "py_error list"

definition rasterio_open :: "env \<Rightarrow> string \<Rightarrow> world \<Rightarrow> world \<times> (py_error + dataset)" where
  "rasterio_open E fp s =
     (case open_read E fp of
        Inl err \<Rightarrow> (s, Inl err)
      | Inr d \<Rightarrow>
          (let h = length (handles_opened s)
           in (s\<lparr>handles_opened := handles_opened s @ [h]\<rparr>, Inr (d\<lparr>ds_handle := h\<rparr>))))"

definition close_handle :: "nat \<Rightarrow> world \<Rightarrow> world" where
  "close_handle h s = s\<lparr>handles_closed := handles_closed s @ [h]\<rparr>"

definition window_transform :: "dataset \<Rightarrow> window \<Rightarrow> affine" where
  "window_transform src w = compose (ds_transform src) (col_off w) (row_off w)"

text \<open>
  \<open>os.path.join\<close> of two components on a POSIX system: an absolute second component
  replaces the first, otherwise a separator is put between them unless the first is empty
  or ends with one.
\<close>

definition path_join :: "string \<Rightarrow> string \<Rightarrow> string" where
  "path_join p q =
     (if q \<noteq> [] \<and> hd q = CHR ''/'' then q
      else if p = [] \<or> last p = CHR ''/'' then p @ q
      else p @ ''/'' @ q)"

text \<open>
  \<open>os.path.exists\<close> and \<open>os.makedirs\<close>. The empty path does not exist, and making it
  raises \<open>FileNotFoundError\<close>; for every other path the file system decides.
\<close>

definition os_path_exists :: "env \<Rightarrow> string \<Rightarrow> bool" where
  "os_path_exists E p = (p \<noteq> [] \<and> path_exists E p)"

definition os_makedirs :: "env \<Rightarrow> string \<Rightarrow> world \<Rightarrow> world \<times> py_error option" where
  "os_makedirs E p s =
     (if p = [] then (s, Some FileNotFoundError)
      else case makedirs E p of
             Some err \<Rightarrow> (s, Some err)
           | None \<Rightarrow> (s\<lparr>dirs_made := dirs_made s @ [p]\<rparr>, None))"

text \<open>
  The static method \<open>save\<close>:
  \<^verbatim>\<open>
  with rasterio.open(output_path, mode="w", **profile) as dst:
      dst.write(data)
  \<close>
  The handle is closed when the block is left, also by an exception.
\<close>

definition save :: "env \<Rightarrow> string \<Rightarrow> ndarray \<Rightarrow> profile \<Rightarrow> world \<Rightarrow> world \<times> py_error option" where
  "save E output_path data prof s =
     (case open_write E output_path prof of
        Some err \<Rightarrow> (s, Some err)
      | None \<Rightarrow>
          (let h = length (handles_opened s);
               s1 = s\<lparr>handles_opened := handles_opened s @ [h],
                      files_created := files_created s @ [(output_path, prof)]\<rparr>
           in case write_data E output_path data of
                Some err \<Rightarrow> (close_handle h s1, Some err)
              | None \<Rightarrow>
                  (close_handle h
                     (s1\<lparr>files_written := files_written s1 @ [(output_path, data)]\<rparr>), None)))"

section \<open>The class Raster\<close>

text \<open>
  The attributes that \<open>__init__\<close> sets and the tiling and merging methods read. (The
  attributes \<open>name\<close> and \<open>shape\<close>, read only by plotting and printing, are left out.)
  \<open>ext\<close> stands for \<open>_ext\<close>.
\<close>

record raster =
  filepath :: string
  driver :: string
  dtype :: pyval
  blockxsize :: pyval
  blockysize :: pyval
  width :: int
  height :: int
  channels :: int
  crs :: pyval
  tiled :: bool
  transform :: affine
  compression :: pyval
  ext :: string

definition dict_get :: "profile \<Rightarrow> string \<Rightarrow> pyval \<Rightarrow> pyval" where
  "dict_get m k dflt = (case m k of None \<Rightarrow> dflt | Some v \<Rightarrow> v)"

definition Raster_init :: "env \<Rightarrow> string \<Rightarrow> world \<Rightarrow> world \<times> (py_error + raster)" where
  "Raster_init E fp s =
     (case rasterio_open E fp s of
        (s1, Inl err) \<Rightarrow> (s1, Inl err)
      | (s1, Inr src) \<Rightarrow>
          (close_handle (ds_handle src) s1,
           Inr \<lparr>filepath = fp,
                driver = ds_driver src,
                dtype = dict_get (ds_meta src) ''dtype'' (PyStr ''uint8''),
                blockxsize = dict_get (ds_profile src) ''blockxsize'' PyNone,
                blockysize = dict_get (ds_profile src) ''blockysize'' PyNone,
                width = ds_width src,
                height = ds_height src,
                channels = ds_count src,
                crs = ds_crs src,
                tiled = ds_is_tiled src,
                transform = ds_transform src,
                compression = ds_compression src,
                ext = ''.tif''\<rparr>))"

subsection \<open>Tile names\<close>

text \<open>
  The format \<open>05d\<close> of Python: the decimal digits of the number, filled with zeros on
  the left to five characters, the sign (of a negative number) first and counted in the
  five. A longer number is not cut.
\<close>

definition digit_char :: "nat \<Rightarrow> char" where
  "digit_char n = ''0123456789'' ! (n mod 10)"

fun dec_digits :: "nat \<Rightarrow> string" where
  "dec_digits n = (if n < 10 then [digit_char n] else dec_digits (n div 10) @ [digit_char n])"

declare dec_digits.simps [simp del]

definition zero_fill :: "nat \<Rightarrow> string \<Rightarrow> string" where
  "zero_fill n s = replicate (n - length s) (CHR ''0'') @ s"

definition format_05d :: "int \<Rightarrow> string" where
  "format_05d i =
     (if i < 0 then CHR ''-'' # zero_fill 4 (dec_digits (nat (- i)))
      else zero_fill 5 (dec_digits (nat i)))"

text \<open>\<^verbatim>\<open>name = f"tile_x{i:05d}_y{j:05d}.{self._ext}"\<close>\<close>

definition tile_name :: "raster \<Rightarrow> int \<Rightarrow> int \<Rightarrow> string" where
  "tile_name self i j = ''tile_x'' @ format_05d i @ ''_y'' @ format_05d j @ ''.'' @ ext self"

subsection \<open>generate_tiles\<close>

text \<open>
  The metadata of one tile: a copy of the source's, with five entries set.
  \<^verbatim>\<open>
  profile = src.meta.copy()
  profile.update({"driver": self.driver, "height": h, "width": w,
                  "transform": transform, "tiled": tiled})
  \<close>
\<close>

definition tile_profile :: "raster \<Rightarrow> dataset \<Rightarrow> window \<Rightarrow> bool \<Rightarrow> profile" where
  "tile_profile self src w tiled_opt =
     (ds_meta src)
       (''driver'' \<mapsto> PyStr (driver self),
        ''height'' \<mapsto> PyInt (win_height w),
        ''width'' \<mapsto> PyInt (win_width w),
        ''transform'' \<mapsto> PyAffine (window_transform src w),
        ''tiled'' \<mapsto> PyBool tiled_opt)"

text \<open>The body of the loop for one window: read, name, save.\<close>

definition write_tile ::
  "env \<Rightarrow> raster \<Rightarrow> dataset \<Rightarrow> string \<Rightarrow> bool \<Rightarrow> window \<Rightarrow> world \<Rightarrow> world \<times> py_error option" where
  "write_tile E self src output_folder tiled_opt w s =
     (case read_window E src w of
        Inl err \<Rightarrow> (s, Some err)
      | Inr data \<Rightarrow>
          save E (path_join output_folder (tile_name self (col_off w) (row_off w)))
            data (tile_profile self src w tiled_opt) s)"

text \<open>The loop over the windows; an exception ends it and is passed on.\<close>

fun write_tiles ::
  "env \<Rightarrow> raster \<Rightarrow> dataset \<Rightarrow> string \<Rightarrow> bool \<Rightarrow> window list \<Rightarrow> world \<Rightarrow> world \<times> py_error option" where
  "write_tiles E self src output_folder tiled_opt [] s = (s, None)"
| "write_tiles E self src output_folder tiled_opt (w # ws) s =
     (case write_tile E self src output_folder tiled_opt w s of
        (s1, Some err) \<Rightarrow> (s1, Some err)
      | (s1, None) \<Rightarrow> write_tiles E self src output_folder tiled_opt ws s1)"

text \<open>
  The first statement of \<open>generate_tiles\<close>:
  \<^verbatim>\<open>
  if not os.path.exists(output_folder):
      os.makedirs(output_folder)
  \<close>
\<close>

definition make_output_folder :: "env \<Rightarrow> string \<Rightarrow> world \<Rightarrow> world \<times> py_error option" where
  "make_output_folder E output_folder s =
     (if os_path_exists E output_folder then (s, None) else os_makedirs E output_folder s)"

text \<open>
  \<open>generate_tiles\<close>: the folder is made when it does not exist (an exception of
  \<open>os.makedirs\<close> leaves the method at once), the source file is
  opened (and closed when the block is left), the two ranges are built and the windows
  written in the order of the loop. The result is the new state and the exception that
  leaves the method, if any. The options \<open>compress\<close> and \<open>photometric\<close> are not used by
  the code.
\<close>

definition generate_tiles ::
  "env \<Rightarrow> raster \<Rightarrow> string \<Rightarrow> int \<Rightarrow> bool \<Rightarrow> string \<Rightarrow> string \<Rightarrow> world \<Rightarrow> world \<times> py_error option" where
  "generate_tiles E self output_folder tile_size tiled_opt compress photometric s =
     (case make_output_folder E output_folder s of
        (s0, Some err) \<Rightarrow> (s0, Some err)
      | (s0, None) \<Rightarrow>
          (case rasterio_open E (filepath self) s0 of
             (s1, Inl err) \<Rightarrow> (s1, Some err)
           | (s1, Inr src) \<Rightarrow>
               (case (case tile_windows (width self) (height self) tile_size of
                        Inl err \<Rightarrow> (s1, Some err)
                      | Inr ws \<Rightarrow> write_tiles E self src output_folder tiled_opt ws s1) of
                  (s2, r) \<Rightarrow> (close_handle (ds_handle src) s2, r))))"

text \<open>
  What \<open>generate_tiles\<close> raises before it builds the two ranges, if anything: the
  exception of making the output folder, or else that of opening the source file.
\<close>

definition error_before_ranges :: "env \<Rightarrow> raster \<Rightarrow> string \<Rightarrow> world \<Rightarrow> py_error option" where
  "error_before_ranges E self output_folder s =
     (case snd (make_output_folder E output_folder s) of
        Some err \<Rightarrow> Some err
      | None \<Rightarrow> (case open_read E (filepath self) of Inl err \<Rightarrow> Some err | Inr d \<Rightarrow> None))"

subsection \<open>merge_tiles\<close>

text \<open>
  The loop that opens the inputs; the list of opened datasets grows by one with each file
  that opens, and an exception ends the loop.
\<close>

fun open_all ::
  "env \<Rightarrow> string list \<Rightarrow> dataset list \<Rightarrow> world \<Rightarrow> dataset list \<times> world \<times> py_error option" where
  "open_all E [] srcs s = (srcs, s, None)"
| "open_all E (fp # fps) srcs s =
     (case rasterio_open E fp s of
        (s1, Inl err) \<Rightarrow> (srcs, s1, Some err)
      | (s1, Inr src) \<Rightarrow> open_all E fps (srcs @ [src]) s1)"

fun close_all :: "dataset list \<Rightarrow> world \<Rightarrow> world" where
  "close_all [] s = s"
| "close_all (src # srcs) s = close_all srcs (close_handle (ds_handle src) s)"

text \<open>
  The metadata of the mosaic: a copy of the first opened input's, with eight entries set.
\<close>

definition mosaic_meta :: "raster \<Rightarrow> dataset \<Rightarrow> ndarray \<Rightarrow> affine \<Rightarrow> profile" where
  "mosaic_meta self src0 mosaic out_trans =
     (ds_meta src0)
       (''driver'' \<mapsto> PyStr ''GTiff'',
        ''height'' \<mapsto> PyInt (nd_height mosaic),
        ''width'' \<mapsto> PyInt (nd_width mosaic),
        ''transform'' \<mapsto> PyAffine out_trans,
        ''compress'' \<mapsto> compression self,
        ''tiled'' \<mapsto> PyBool (tiled self),
        ''blockxsize'' \<mapsto> blockxsize self,
        ''blockysize'' \<mapsto> blockysize self)"

text \<open>
  The rest of the \<open>try\<close> block, once the inputs are open: merge, build the metadata from
  element 0 of the list, write the mosaic (as \<open>save\<close> does).
\<close>

definition mosaic_and_write ::
  "env \<Rightarrow> raster \<Rightarrow> dataset list \<Rightarrow> string \<Rightarrow> world \<Rightarrow> world \<times> py_error option" where
  "mosaic_and_write E self srcs output_path s =
     (case merge E srcs of
        Inl err \<Rightarrow> (s, Some err)
      | Inr (mosaic, out_trans) \<Rightarrow>
          (case srcs of
             [] \<Rightarrow> (s, Some IndexError)
           | src0 # rest \<Rightarrow> save E output_path mosaic (mosaic_meta self src0 mosaic out_trans) s))"

text \<open>
  \<open>merge_tiles\<close>: nothing is done for an empty listing. Otherwise the \<open>try\<close> block
  runs, an exception in it is printed and not passed on, and the \<open>finally\<close> block closes
  every dataset in the list.
\<close>

definition merge_tiles ::
  "env \<Rightarrow> raster \<Rightarrow> string \<Rightarrow> string \<Rightarrow> world \<Rightarrow> world \<times> py_error option" where
  "merge_tiles E self input_folder output_path s =
     (let filepaths = glob E (path_join input_folder ''*.tif'')
      in if filepaths = [] then (s, None)
         else
           (case open_all E filepaths [] s of
              (srcs, s1, r1) \<Rightarrow>
                (case (case r1 of
                         Some err \<Rightarrow> (s1, Some err)
                       | None \<Rightarrow> mosaic_and_write E self srcs output_path s1) of
                   (s2, r2) \<Rightarrow>
                     (let s3 = (case r2 of
                                  Some err \<Rightarrow> s2\<lparr>printed := printed s2 @ [err]\<rparr>
                                | None \<Rightarrow> s2)
                      in (close_all srcs s3, None)))))"

text \<open>The handles opened, and those closed, between two states.\<close>

definition opened_during :: "world \<Rightarrow> world \<Rightarrow> nat list" where
  "opened_during s s' = drop (length (handles_opened s)) (handles_opened s')"

definition closed_during :: "world \<Rightarrow> world \<Rightarrow> nat list" where
  "closed_during s s' = drop (length (handles_closed s)) (handles_closed s')"

section \<open>Example inputs\<close>

text \<open>
  A small world for evaluating the definitions: every file opens as the same raster of 5 by
  3 pixels, except \<open>broken/b.tif\<close>, which fails to open; the folder \<open>tiles\<close> and the folder
  \<open>broken\<close> hold three files each and every other folder is empty; no folder exists
  before it is made, and every folder can be made except \<open>/readonly/out\<close> (and the empty
  path); merging gives a fixed mosaic and writing succeeds. \<open>ex_raster\<close> is the object that \<open>__init__\<close> builds from
  \<open>big.tif\<close> in this world.
\<close>

definition ex_transform :: affine where
  "ex_transform = \<lparr>af_a = 2, af_b = 0, af_c = 100, af_d = 0, af_e = - 2, af_f = 500\<rparr>"

definition ex_meta :: profile where
  "ex_meta = [''driver'' \<mapsto> PyStr ''GTiff'', ''dtype'' \<mapsto> PyStr ''uint16'',
              ''width'' \<mapsto> PyInt 5, ''height'' \<mapsto> PyInt 3, ''count'' \<mapsto> PyInt 1,
              ''transform'' \<mapsto> PyAffine ex_transform]"

definition ex_dataset :: dataset where
  "ex_dataset =
     \<lparr>ds_handle = 0, ds_driver = ''GTiff'', ds_meta = ex_meta,
      ds_profile = ex_meta(''blockxsize'' \<mapsto> PyInt 256, ''tiled'' \<mapsto> PyBool False),
      ds_width = 5, ds_height = 3, ds_count = 1, ds_crs = PyStr ''EPSG:4326'',
      ds_is_tiled = False, ds_transform = ex_transform, ds_compression = PyStr ''lzw''\<rparr>"

definition ex_mosaic :: ndarray where
  "ex_mosaic = \<lparr>nd_count = 1, nd_height = 3, nd_width = 5, nd_cells = replicate 15 7\<rparr>"

definition ex_env :: env where
  "ex_env =
     \<lparr>path_exists = (\<lambda>p. False),
      makedirs = (\<lambda>p. if p = ''/readonly/out'' then Some OSError else None),
      glob = (\<lambda>p. if p = ''tiles/*.tif'' then [''tiles/a.tif'', ''tiles/b.tif'', ''tiles/c.tif'']
                  else if p = ''broken/*.tif'' then [''broken/a.tif'', ''broken/b.tif'', ''broken/c.tif'']
                  else []),
      open_read = (\<lambda>p. if p = ''broken/b.tif'' then Inl RasterioIOError else Inr ex_dataset),
      read_window = (\<lambda>d w. Inr \<lparr>nd_count = ds_count d, nd_height = win_height w,
                                 nd_width = win_width w, nd_cells = []\<rparr>),
      merge = (\<lambda>srcs. case srcs of [] \<Rightarrow> Inl MergeError | d # ds \<Rightarrow> Inr (ex_mosaic, ex_transform)),
      open_write = (\<lambda>p prof. None),
      write_data = (\<lambda>p d. None)\<rparr>"

definition ex_world :: world where
  "ex_world = \<lparr>handles_opened = [], handles_closed = [], dirs_made = [],
               files_created = [], files_written = [], printed = []\<rparr>"

definition ex_raster :: raster where
  "ex_raster =
     \<lparr>filepath = ''big.tif'', driver = ''GTiff'', dtype = PyStr ''uint16'',
      blockxsize = PyInt 256, blockysize = PyNone, width = 5, height = 3, channels = 1,
      crs = PyStr ''EPSG:4326'', tiled = False, transform = ex_transform,
      compression = PyStr ''lzw'', ext = ''.tif''\<rparr>"

section \<open>Properties of the tiling partition\<close>

lemma zle_div: 
  assumes "0 < (ts::int)" shows "(k \<le> a div ts) = (k * ts \<le> a)"
proof
  assume "k \<le> a div ts"
  then have "k * ts \<le> (a div ts) * ts" using assms by (simp add: mult_right_mono)
  also have "\<dots> \<le> a" using assms
    by (metis add.commute add_increasing div_mult_mod_eq order_refl pos_mod_sign)
  finally show "k * ts \<le> a" .
next
  assume "k * ts \<le> a"
  then have "(k * ts) div ts \<le> a div ts" using assms by (rule zdiv_mono1)
  then show "k \<le> a div ts" using assms by simp
qed

lemma range_length_pos: 
  assumes "0 < ts" shows "(k < range_length 0 W ts) = (int k * ts < W)"
proof (cases "W \<le> 0")
  case True
  have "0 \<le> int k * ts" using assms by simp
  with True have "\<not> int k * ts < W" by linarith
  with True show ?thesis using assms by (simp add: range_length_def)
next
  case False
  then have q: "0 \<le> (W - 1) div ts" using assms by (simp add: pos_imp_zdiv_nonneg_iff)
  have "(k < range_length 0 W ts) = (int k \<le> (W - 1) div ts)"
    using False assms q by (simp add: range_length_def) linarith
  also have "\<dots> = (int k * ts \<le> W - 1)" using assms by (rule zle_div)
  finally show ?thesis by auto
qed

lemma py_range_pos:
  "0 < ts \<Longrightarrow> py_range 0 W ts = Inr (map (\<lambda>k. int k * ts) [0..<range_length 0 W ts])"
  by (simp add: py_range_def)

lemma set_py_range_pos:
  assumes "0 < ts"
  shows "set (map (\<lambda>k. int k * ts) [0..<range_length 0 W ts]) = {i. 0 \<le> i \<and> i < W \<and> i mod ts = 0}"
proof (intro set_eqI iffI)
  fix i assume "i \<in> set (map (\<lambda>k. int k * ts) [0..<range_length 0 W ts])"
  then obtain k where k: "k < range_length 0 W ts" "i = int k * ts" by auto
  then have "i < W" using range_length_pos[OF assms] by simp
  moreover have "0 \<le> i" using k assms by simp
  moreover have "i mod ts = 0" using k by simp
  ultimately show "i \<in> {i. 0 \<le> i \<and> i < W \<and> i mod ts = 0}" by simp
next
  fix i assume "i \<in> {i. 0 \<le> i \<and> i < W \<and> i mod ts = 0}"
  then have i: "0 \<le> i" "i < W" "i mod ts = 0" by auto
  define k where "k = nat (i div ts)"
  have "0 \<le> i div ts" using i assms by (simp add: pos_imp_zdiv_nonneg_iff)
  then have "int k * ts = i" using i by (auto simp: k_def)
  moreover then have "k < range_length 0 W ts" using range_length_pos[OF assms] i by simp
  ultimately show "i \<in> set (map (\<lambda>k. int k * ts) [0..<range_length 0 W ts])" by force
qed

lemma stride_unique:
  assumes "0 < (ts::int)" "i mod ts = 0" "i \<le> x" "x < i + ts"
  shows "i = x - x mod ts"
proof -
  define r where "r = x - i"
  have r: "0 \<le> r" "r < ts" using assms by (auto simp: r_def)
  have "x mod ts = (i + r) mod ts" by (simp add: r_def)
  also have "\<dots> = (i mod ts + r mod ts) mod ts" by (simp add: mod_add_eq)
  also have "\<dots> = r" using assms r by simp
  finally show ?thesis by (simp add: r_def)
qed

lemma stride_covers:
  assumes "0 < (ts::int)" "0 \<le> x" "x < W"
  shows "0 \<le> x - x mod ts" "x - x mod ts < W" "(x - x mod ts) mod ts = 0"
    "x - x mod ts \<le> x" "x < (x - x mod ts) + min ts (W - (x - x mod ts))"
proof -
  have m: "0 \<le> x mod ts" "x mod ts < ts" using assms by simp_all
  have "x mod ts \<le> x" using assms by (simp add: zmod_le_nonneg_dividend)
  then show "0 \<le> x - x mod ts" by simp
  show "x - x mod ts < W" using m assms by linarith
  show "(x - x mod ts) mod ts = 0" by (simp add: minus_mod_eq_mult_div)
  show "x - x mod ts \<le> x" using m by simp
  show "x < (x - x mod ts) + min ts (W - (x - x mod ts))" using m assms by (simp add: min_def)
qed

lemma tile_windows_pos:
  assumes "0 < ts"
  shows "tile_windows W H ts =
     Inr (concat (map (\<lambda>i. map (\<lambda>j. make_window W H ts i j)
             (map (\<lambda>k. int k * ts) [0..<range_length 0 H ts]))
             (map (\<lambda>k. int k * ts) [0..<range_length 0 W ts])))"
  using assms by (simp add: tile_windows_def py_range_def)

lemma set_nested_map:
  "set (concat (map (\<lambda>i. map (f i) ys) xs)) = {f i j | i j. i \<in> set xs \<and> j \<in> set ys}"
  by auto

lemma set_tile_windows:
  assumes "0 < ts" "tile_windows W H ts = Inr ws"
  shows "set ws = {make_window W H ts i j | i j.
            0 \<le> i \<and> i < W \<and> i mod ts = 0 \<and> 0 \<le> j \<and> j < H \<and> j mod ts = 0}"
proof -
  have "ws = concat (map (\<lambda>i. map (make_window W H ts i)
             (map (\<lambda>k. int k * ts) [0..<range_length 0 H ts]))
             (map (\<lambda>k. int k * ts) [0..<range_length 0 W ts]))"
    using assms(2) unfolding tile_windows_pos[OF assms(1)] by simp
  then show ?thesis
    by (simp only: set_nested_map set_py_range_pos[OF assms(1)] mem_Collect_eq conj_assoc)
qed

lemma covers_make_window:
  "covers (make_window W H ts i j) x y =
     (i \<le> x \<and> x < i + min ts (W - i) \<and> j \<le> y \<and> y < j + min ts (H - j))"
  by (simp add: covers_def make_window_def)

lemma covered_once:
  assumes "0 < ts" "tile_windows W H ts = Inr ws" "0 \<le> x" "x < W" "0 \<le> y" "y < H"
  shows "\<exists>!w. w \<in> set ws \<and> covers w x y"
proof (rule ex1I)
  let ?w = "make_window W H ts (x - x mod ts) (y - y mod ts)"
  note cx = stride_covers[OF assms(1,3,4)] and cy = stride_covers[OF assms(1,5,6)]
  have "?w \<in> set ws"
    unfolding set_tile_windows[OF assms(1,2)]
    by (rule CollectI, rule exI[of _ "x - x mod ts"], rule exI[of _ "y - y mod ts"])
       (intro conjI refl cx(1,2,3) cy(1,2,3))
  moreover have "covers ?w x y"
    unfolding covers_make_window by (intro conjI cx(4,5) cy(4,5))
  ultimately show "?w \<in> set ws \<and> covers ?w x y" ..
next
  fix w assume w: "w \<in> set ws \<and> covers w x y"
  then obtain i j where ij: "w = make_window W H ts i j" "i mod ts = 0" "j mod ts = 0"
    unfolding set_tile_windows[OF assms(1,2)] by auto
  with w have c: "i \<le> x" "x < i + min ts (W - i)" "j \<le> y" "y < j + min ts (H - j)"
    by (simp_all add: covers_make_window)
  have "i = x - x mod ts" using stride_unique[OF assms(1) ij(2) c(1)] c(2) by simp
  moreover have "j = y - y mod ts" using stride_unique[OF assms(1) ij(3) c(3)] c(4) by simp
  ultimately show "w = make_window W H ts (x - x mod ts) (y - y mod ts)" using ij(1) by simp
qed

lemma window_in_bounds:
  assumes "0 < ts" "tile_windows W H ts = Inr ws" "w \<in> set ws"
  shows "0 < win_width w \<and> 0 < win_height w \<and> 0 \<le> col_off w \<and> 0 \<le> row_off w \<and>
         col_off w + win_width w \<le> W \<and> row_off w + win_height w \<le> H"
proof -
  from assms(3) obtain i j where ij: "w = make_window W H ts i j" "0 \<le> i" "i < W" "0 \<le> j" "j < H"
    unfolding set_tile_windows[OF assms(1,2)] by auto
  then show ?thesis using assms(1) by (auto simp: make_window_def min_def)
qed


lemma distinct_nested_map:
  assumes "distinct ys" "\<And>i j i' j'. f i j = f i' j' \<Longrightarrow> i = i' \<and> j = j'"
  shows "distinct xs \<Longrightarrow> distinct (concat (map (\<lambda>i. map (f i) ys) xs))"
proof (induction xs)
  case Nil
  then show ?case by simp
next
  case (Cons x xs)
  have "inj_on (f x) (set ys)" using assms(2) by (auto intro: inj_onI)
  then have d: "distinct (map (f x) ys)" using assms(1) by (simp add: distinct_map)
  have "set (map (f x) ys) \<inter> set (concat (map (\<lambda>i. map (f i) ys) xs)) = {}"
    using Cons.prems assms(2) by (auto simp: set_nested_map)
  with d Cons show ?case by simp
qed

lemma distinct_stride: "0 < (ts::int) \<Longrightarrow> distinct (map (\<lambda>k. int k * ts) [0..<n])"
  by (simp add: distinct_map inj_on_def)

lemma make_window_inj:
  "make_window W H ts i j = make_window W H ts i' j' \<Longrightarrow> i = i' \<and> j = j'"
  by (simp add: make_window_def)

lemma distinct_tile_windows:
  assumes "0 < ts" "tile_windows W H ts = Inr ws"
  shows "distinct ws"
proof -
  have "ws = concat (map (\<lambda>i. map (make_window W H ts i)
             (map (\<lambda>k. int k * ts) [0..<range_length 0 H ts]))
             (map (\<lambda>k. int k * ts) [0..<range_length 0 W ts]))"
    using assms(2) unfolding tile_windows_pos[OF assms(1)] by simp
  then show ?thesis
    using distinct_nested_map[OF distinct_stride[OF assms(1)] make_window_inj distinct_stride[OF assms(1)]]
    by simp
qed

lemma covered_by_one_index:
  assumes "0 < ts" "tile_windows W H ts = Inr ws" "0 \<le> x" "x < W" "0 \<le> y" "y < H"
  shows "\<exists>!k. k < length ws \<and> covers (ws ! k) x y"
proof -
  from covered_once[OF assms] obtain w where
    w: "w \<in> set ws" "covers w x y" and u: "\<And>v. v \<in> set ws \<Longrightarrow> covers v x y \<Longrightarrow> v = w"
    by blast
  from w(1) obtain k where k: "k < length ws" "ws ! k = w" by (auto simp: in_set_conv_nth)
  show ?thesis
  proof (rule ex1I)
    show "k < length ws \<and> covers (ws ! k) x y" using k w by simp
  next
    fix k' assume k': "k' < length ws \<and> covers (ws ! k') x y"
    then have "ws ! k' = ws ! k" using u k by simp
    moreover have "k' < length ws" using k' by simp
    ultimately show "k' = k"
      using k(1) distinct_tile_windows[OF assms(1,2)] nth_eq_iff_index_eq by blast
  qed
qed

lemma union_windows:
  assumes "0 < ts" "tile_windows W H ts = Inr ws"
  shows "(\<Union>w\<in>set ws. pixels_of w) = {0..<W} \<times> {0..<H}"
proof (intro set_eqI iffI)
  fix p assume "p \<in> (\<Union>w\<in>set ws. pixels_of w)"
  then obtain w where w: "w \<in> set ws" "p \<in> pixels_of w" by blast
  from window_in_bounds[OF assms w(1)] w(2) show "p \<in> {0..<W} \<times> {0..<H}"
    by (auto simp: pixels_of_def)
next
  fix p :: "int \<times> int" assume p: "p \<in> {0..<W} \<times> {0..<H}"
  obtain x y where xy: "p = (x, y)" by (cases p)
  with p have "0 \<le> x" "x < W" "0 \<le> y" "y < H" by auto
  from covered_once[OF assms this] obtain w where "w \<in> set ws" "covers w x y" by blast
  then show "p \<in> (\<Union>w\<in>set ws. pixels_of w)"
    unfolding xy by (auto simp: covers_def pixels_of_def)
qed

text \<open>
  Claim C1. For a raster of positive width and height and a positive tile size, the window
  loop returns a list of windows that tiles the pixel rectangle exactly: there is at least
  one window, no window is empty or reaches outside the raster, every pixel of the raster
  lies in the window at exactly one position of the list, and the union of the windows is
  the whole rectangle.
\<close>

theorem tiling_is_exact_partition:
  assumes "0 < W" "0 < H" "0 < ts"
  shows "\<exists>ws. tile_windows W H ts = Inr ws \<and> ws \<noteq> [] \<and>
           (\<forall>w\<in>set ws. 0 < win_width w \<and> 0 < win_height w \<and>
                       0 \<le> col_off w \<and> 0 \<le> row_off w \<and>
                       col_off w + win_width w \<le> W \<and> row_off w + win_height w \<le> H) \<and>
           (\<forall>x y. 0 \<le> x \<and> x < W \<and> 0 \<le> y \<and> y < H \<longrightarrow>
                  (\<exists>!k. k < length ws \<and> covers (ws ! k) x y)) \<and>
           (\<Union>w\<in>set ws. pixels_of w) = {0..<W} \<times> {0..<H}"
proof -
  obtain ws where ws: "tile_windows W H ts = Inr ws"
    using tile_windows_pos[OF assms(3)] by blast
  have u: "(\<Union>w\<in>set ws. pixels_of w) = {0..<W} \<times> {0..<H}"
    by (rule union_windows[OF assms(3) ws])
  have "(0, 0) \<in> {0..<W} \<times> {0..<H}" using assms by simp
  then have "(0, 0) \<in> (\<Union>w\<in>set ws. pixels_of w)" by (simp only: u)
  then have "ws \<noteq> []" by auto
  moreover have "\<forall>w\<in>set ws. 0 < win_width w \<and> 0 < win_height w \<and>
                       0 \<le> col_off w \<and> 0 \<le> row_off w \<and>
                       col_off w + win_width w \<le> W \<and> row_off w + win_height w \<le> H"
    using window_in_bounds[OF assms(3) ws] by blast
  moreover have "\<forall>x y. 0 \<le> x \<and> x < W \<and> 0 \<le> y \<and> y < H \<longrightarrow>
                  (\<exists>!k. k < length ws \<and> covers (ws ! k) x y)"
    using covered_by_one_index[OF assms(3) ws] by blast
  ultimately show ?thesis using ws u by blast
qed

theorem tiling_is_exact_partition_witness:
  "(0::int) < 5 \<and> (0::int) < 3 \<and> (0::int) < 2 \<and>
   (\<exists>ws. tile_windows 5 3 2 = Inr ws \<and> ws \<noteq> [] \<and>
           (\<forall>w\<in>set ws. 0 < win_width w \<and> 0 < win_height w \<and>
                       0 \<le> col_off w \<and> 0 \<le> row_off w \<and>
                       col_off w + win_width w \<le> 5 \<and> row_off w + win_height w \<le> 3) \<and>
           (\<forall>x y. 0 \<le> x \<and> x < 5 \<and> 0 \<le> y \<and> y < 3 \<longrightarrow>
                  (\<exists>!k. k < length ws \<and> covers (ws ! k) x y)) \<and>
           (\<Union>w\<in>set ws. pixels_of w) = {0..<5} \<times> {0..<3})"
  using tiling_is_exact_partition[of 5 3 2] by simp

text \<open>
  Claim C9, as amended. A raster of 2500 by 2500 pixels with tile size 1024 gives nine
  windows; their sizes (width, height), in the order of the loop, are those of a 3 by 3
  grid walked column by column: the third, sixth and ninth window are 452 high, the last
  three are 452 wide.
\<close>

theorem edge_tiles_2500_sizes: "tile_sizes 2500 2500 1024 =
   Inr [(1024, 1024), (1024, 1024), (1024, 452),
        (1024, 1024), (1024, 1024), (1024, 452),
        (452, 1024), (452, 1024), (452, 452)]"
  by code_simp

text \<open>
  Claim C9, as stated, fails: read as (width, height), the list of the claim has the third
  window 452 wide and 1024 high, and the loop makes it 1024 wide and 452 high.
\<close>

theorem edge_tiles_2500_claimed_order_fails: "tile_sizes 2500 2500 1024 \<noteq>
   Inr [(1024, 1024), (1024, 1024), (452, 1024),
        (1024, 1024), (1024, 1024), (452, 1024),
        (1024, 452), (1024, 452), (452, 452)]"
  by code_simp

lemma sorted_wrt_nested_map:
  assumes "sorted_wrt less ys"
    and "\<And>i j j'. less j j' \<Longrightarrow> R (f i j) (f i j')"
    and "\<And>i i' j j'. less i i' \<Longrightarrow> R (f i j) (f i' j')"
  shows "sorted_wrt less xs \<Longrightarrow> sorted_wrt R (concat (map (\<lambda>i. map (f i) ys) xs))"
proof (induction xs)
  case Nil
  then show ?case by simp
next
  case (Cons x xs)
  have "sorted_wrt R (map (f x) ys)"
    using assms(1,2) by (simp add: sorted_wrt_map sorted_wrt_mono_rel[of ys less])
  moreover have "\<forall>u\<in>set (map (f x) ys). \<forall>v\<in>set (concat (map (\<lambda>i. map (f i) ys) xs)). R u v"
    using Cons.prems assms(3) by (auto simp: set_nested_map)
  ultimately show ?case using Cons by (simp add: sorted_wrt_append)
qed

lemma sorted_stride: "0 < (ts::int) \<Longrightarrow> sorted_wrt (<) (map (\<lambda>k. int k * ts) [0..<n])"
  by (simp add: sorted_wrt_map sorted_wrt_iff_nth_less)

lemma length_nested_map:
  "length (concat (map (\<lambda>i. map (f i) ys) xs)) = length xs * length ys"
  by (induction xs) simp_all

lemma nth_nested_map:
  "p < length xs \<Longrightarrow> q < length ys \<Longrightarrow>
   concat (map (\<lambda>i. map (f i) ys) xs) ! (p * length ys + q) = f (xs ! p) (ys ! q)"
proof (induction xs arbitrary: p)
  case Nil
  then show ?case by simp
next
  case (Cons x xs)
  show ?case
  proof (cases p)
    case 0
    then show ?thesis using Cons.prems by (simp add: nth_append)
  next
    case (Suc p')
    then have "p' < length xs" using Cons.prems by simp
    from Cons.IH[OF this Cons.prems(2)] Suc show ?thesis
      by (simp add: nth_append)
  qed
qed

text \<open>
  Claim C4. For a positive tile size the windows come in the order of the loop: each window
  has a smaller column offset than every later one, or the same column offset and a smaller
  row offset; so all windows of one column offset come, by increasing row offset, before
  any window of the next. The window at position \<open>p * rows + q\<close> is the one with offsets
  \<open>(p * tile_size, q * tile_size)\<close>.
\<close>

theorem tiling_order:
  assumes "0 < ts"
  shows "\<exists>ws. tile_windows W H ts = Inr ws \<and> sorted_wrt emitted_before ws \<and>
           length ws = range_length 0 W ts * range_length 0 H ts \<and>
           (\<forall>p q. p < range_length 0 W ts \<and> q < range_length 0 H ts \<longrightarrow>
                  ws ! (p * range_length 0 H ts + q) =
                    make_window W H ts (int p * ts) (int q * ts))"
proof -
  let ?rows = "map (\<lambda>k. int k * ts) [0..<range_length 0 H ts]"
  let ?cols = "map (\<lambda>k. int k * ts) [0..<range_length 0 W ts]"
  let ?ws = "concat (map (\<lambda>i. map (make_window W H ts i) ?rows) ?cols)"
  have ws: "tile_windows W H ts = Inr ?ws" by (rule tile_windows_pos[OF assms])
  have "sorted_wrt emitted_before ?ws"
    by (rule sorted_wrt_nested_map[OF sorted_stride[OF assms] _ _ sorted_stride[OF assms]])
       (simp_all add: emitted_before_def make_window_def)
  moreover have "length ?ws = range_length 0 W ts * range_length 0 H ts"
    by (simp only: length_nested_map length_map length_upt diff_zero)
  moreover have "?ws ! (p * range_length 0 H ts + q) = make_window W H ts (int p * ts) (int q * ts)"
    if "p < range_length 0 W ts" "q < range_length 0 H ts" for p q
    using nth_nested_map[of p ?cols q ?rows "make_window W H ts"] that by simp
  ultimately show ?thesis using ws by blast
qed

theorem tiling_order_witness:
  "(0::int) < 2 \<and>
   (\<exists>ws. tile_windows 5 3 2 = Inr ws \<and> sorted_wrt emitted_before ws \<and>
           length ws = range_length 0 5 2 * range_length 0 3 2 \<and>
           (\<forall>p q. p < range_length 0 5 2 \<and> q < range_length 0 3 2 \<longrightarrow>
                  ws ! (p * range_length 0 3 2 + q) =
                    make_window 5 3 2 (int p * 2) (int q * 2)))"
  using tiling_order[of 2 5 3] by simp

section \<open>Tile names, transforms and tile sizes\<close>

lemma ex_raster_init: "snd (Raster_init ex_env ''big.tif'' ex_world) = Inr ex_raster"
  by (simp add: Raster_init_def rasterio_open_def ex_env_def ex_world_def ex_raster_def ex_dataset_def
       ex_meta_def dict_get_def close_handle_def Let_def)

lemma replicate_numeral_unfold: "replicate (numeral k) x = x # replicate (pred_numeral k) x"
  by (simp add: numeral_eq_Suc)

lemma format_small:
  "format_05d 0 = ''00000''" "format_05d 2 = ''00002''" "format_05d 4 = ''00004''"
  by (simp_all add: format_05d_def zero_fill_def dec_digits.simps digit_char_def
        replicate_numeral_unfold)

lemma ex_tile_windows:
  "tile_windows 5 3 2 =
     Inr [make_window 5 3 2 0 0, make_window 5 3 2 0 2,
          make_window 5 3 2 2 0, make_window 5 3 2 2 2,
          make_window 5 3 2 4 0, make_window 5 3 2 4 2]"
  by code_simp

text \<open>
  Claim C8. For the window at offsets (4, 2) the claim gives the name
  \<open>tile_x00004_y00002.tif\<close>. In the code \<open>_ext\<close> is \<open>.tif\<close>, with its dot, and the format
  string puts a dot of its own before it: every name has two dots before \<open>tif\<close>. The
  theorem runs \<open>generate_tiles\<close> on the example raster (5 by 3 pixels, tile size 2) and
  lists the paths of the files it creates.
\<close>

theorem tile_name_double_dot:
  "snd (Raster_init ex_env ''big.tif'' ex_world) = Inr ex_raster \<and>
   map fst (files_created
     (fst (generate_tiles ex_env ex_raster ''out'' 2 False ''JPEG'' ''RGB'' ex_world))) =
     [''out/tile_x00000_y00000..tif'', ''out/tile_x00000_y00002..tif'',
      ''out/tile_x00002_y00000..tif'', ''out/tile_x00002_y00002..tif'',
      ''out/tile_x00004_y00000..tif'', ''out/tile_x00004_y00002..tif''] \<and>
   tile_name ex_raster 4 2 = ''tile_x00004_y00002..tif'' \<and>
   tile_name ex_raster 4 2 \<noteq> ''tile_x00004_y00002.tif''"
proof -
  have n: "ext ex_raster = ''.tif''" "width ex_raster = 5" "height ex_raster = 3"
    "filepath ex_raster = ''big.tif''"
    by (simp_all add: ex_raster_def)
  have "map fst (files_created
     (fst (generate_tiles ex_env ex_raster ''out'' 2 False ''JPEG'' ''RGB'' ex_world))) =
     [''out/tile_x00000_y00000..tif'', ''out/tile_x00000_y00002..tif'',
      ''out/tile_x00002_y00000..tif'', ''out/tile_x00002_y00002..tif'',
      ''out/tile_x00004_y00000..tif'', ''out/tile_x00004_y00002..tif'']"
    by (simp add: generate_tiles_def make_output_folder_def os_path_exists_def os_makedirs_def
          n ex_tile_windows rasterio_open_def write_tile_def save_def
          close_handle_def Let_def tile_name_def format_small path_join_def make_window_def
          ex_env_def ex_world_def)
  then show ?thesis
    by (simp add: ex_raster_init tile_name_def format_small n)
qed

text \<open>
  Claim C2. For every window, so for each one the tiling makes, the transform of the tile
  sends the tile's pixel (0, 0) to the world coordinates that the parent's transform gives
  the parent's pixel at the window's offsets, its scale and rotation coefficients are the
  parent's, and it is the transform stored in the tile's metadata.
\<close>

theorem tile_transform_consistent:
  "pixelToWorld (window_transform src w) 0 0 =
     pixelToWorld (ds_transform src) (of_int (col_off w)) (of_int (row_off w)) \<and>
   af_a (window_transform src w) = af_a (ds_transform src) \<and>
   af_b (window_transform src w) = af_b (ds_transform src) \<and>
   af_d (window_transform src w) = af_d (ds_transform src) \<and>
   af_e (window_transform src w) = af_e (ds_transform src) \<and>
   tile_profile self src w tiled_opt ''transform'' = Some (PyAffine (window_transform src w))"
  by (simp add: pixelToWorld_def window_transform_def compose_def affine_compose_def
        translation_def tile_profile_def)

theorem tile_transform_consistent_witness:
  "pixelToWorld (window_transform ex_dataset (make_window 5 3 2 4 2)) 0 0 = (108, 496) \<and>
   pixelToWorld (ds_transform ex_dataset) 4 2 = (108, 496) \<and>
   af_a (window_transform ex_dataset (make_window 5 3 2 4 2)) = 2 \<and>
   af_b (window_transform ex_dataset (make_window 5 3 2 4 2)) = 0 \<and>
   af_d (window_transform ex_dataset (make_window 5 3 2 4 2)) = 0 \<and>
   af_e (window_transform ex_dataset (make_window 5 3 2 4 2)) = - 2 \<and>
   tile_profile ex_raster ex_dataset (make_window 5 3 2 4 2) False ''transform'' =
     Some (PyAffine (window_transform ex_dataset (make_window 5 3 2 4 2)))"
  using tile_transform_consistent[of ex_dataset "make_window 5 3 2 4 2" ex_raster False]
  by (simp add: pixelToWorld_def make_window_def ex_dataset_def ex_transform_def)

lemma tile_windows_zero: "tile_windows W H 0 = Inl ValueError"
  by (simp add: tile_windows_def py_range_def)

lemma tile_windows_neg: "ts < 0 \<Longrightarrow> 0 \<le> W \<Longrightarrow> tile_windows W H ts = Inr []"
  by (simp add: tile_windows_def py_range_def range_length_def)

lemma rasterio_open_cases:
  "rasterio_open E fp s =
     (case open_read E fp of
        Inl err \<Rightarrow> (s, Inl err)
      | Inr d \<Rightarrow> (s\<lparr>handles_opened := handles_opened s @ [length (handles_opened s)]\<rparr>,
                  Inr (d\<lparr>ds_handle := length (handles_opened s)\<rparr>)))"
  by (simp add: rasterio_open_def Let_def split: sum.splits)

lemma make_output_folder_files:
  "make_output_folder E output_folder s = (s0, r) \<Longrightarrow>
   files_created s0 = files_created s \<and> files_written s0 = files_written s \<and>
   handles_opened s0 = handles_opened s \<and> handles_closed s0 = handles_closed s"
  by (auto simp: make_output_folder_def os_makedirs_def split: if_splits option.splits)

lemma generate_tiles_zero:
  assumes "generate_tiles E self output_folder 0 tiled_opt compress photometric s = (s', r)"
  shows "r = Some (case error_before_ranges E self output_folder s of
                     Some err \<Rightarrow> err | None \<Rightarrow> ValueError) \<and>
         files_created s' = files_created s \<and> files_written s' = files_written s"
proof -
  obtain s0 r0 where m: "make_output_folder E output_folder s = (s0, r0)"
    by (cases "make_output_folder E output_folder s")
  note f = make_output_folder_files[OF m]
  show ?thesis
    using assms m f
    by (auto simp: generate_tiles_def error_before_ranges_def tile_windows_zero
          rasterio_open_cases close_handle_def split: sum.splits option.splits)
qed

lemma generate_tiles_neg:
  assumes "ts < 0" "0 \<le> width self"
    and "generate_tiles E self output_folder ts tiled_opt compress photometric s = (s', r)"
  shows "r = error_before_ranges E self output_folder s \<and>
         files_created s' = files_created s \<and> files_written s' = files_written s"
proof -
  obtain s0 r0 where m: "make_output_folder E output_folder s = (s0, r0)"
    by (cases "make_output_folder E output_folder s")
  note f = make_output_folder_files[OF m]
  show ?thesis
    using assms m f
    by (auto simp: generate_tiles_def error_before_ranges_def tile_windows_neg
          rasterio_open_cases close_handle_def split: sum.splits option.splits)
qed

lemma window_clipped:
  assumes "0 < ts" "tile_windows W H ts = Inr ws" "w \<in> set ws"
  shows "win_width w = (if W - col_off w < ts then W - col_off w else ts) \<and>
         win_height w = (if H - row_off w < ts then H - row_off w else ts)"
proof -
  from assms(3) obtain i j where "w = make_window W H ts i j"
    unfolding set_tile_windows[OF assms(1,2)] by auto
  then show ?thesis by (simp add: make_window_def min_def)
qed

text \<open>
  Claim C5, as amended. With tile size 0 the call fails and writes no tile: the error is
  the \<open>ValueError\<close> of \<open>range\<close>, unless making the output folder or opening the source
  file fails first, and then it is that error. With a negative tile size (and a width that
  is not negative) both ranges are empty: no tile is written and nothing is raised for the
  tile size, so the call returns normally unless making the output folder or opening the
  source file fails. With a positive tile size every window has a positive width and
  height, and its width (height) is the rest of the raster from its offset when that rest
  is smaller than the tile size, and the tile size otherwise.
\<close>

theorem tile_size_policy:
  "(tile_size = 0 \<longrightarrow>
      snd (generate_tiles E self output_folder tile_size tiled_opt compress photometric s) =
        Some (case error_before_ranges E self output_folder s of
                Some err \<Rightarrow> err | None \<Rightarrow> ValueError) \<and>
      files_created (fst (generate_tiles E self output_folder tile_size tiled_opt compress photometric s)) =
        files_created s \<and>
      files_written (fst (generate_tiles E self output_folder tile_size tiled_opt compress photometric s)) =
        files_written s) \<and>
   (tile_size < 0 \<and> 0 \<le> width self \<longrightarrow>
      snd (generate_tiles E self output_folder tile_size tiled_opt compress photometric s) =
        error_before_ranges E self output_folder s \<and>
      files_created (fst (generate_tiles E self output_folder tile_size tiled_opt compress photometric s)) =
        files_created s \<and>
      files_written (fst (generate_tiles E self output_folder tile_size tiled_opt compress photometric s)) =
        files_written s) \<and>
   (0 < tile_size \<longrightarrow>
      (\<exists>ws. tile_windows (width self) (height self) tile_size = Inr ws \<and>
        (\<forall>w\<in>set ws.
           0 < win_width w \<and> 0 < win_height w \<and>
           win_width w = (if width self - col_off w < tile_size then width self - col_off w
                          else tile_size) \<and>
           win_height w = (if height self - row_off w < tile_size then height self - row_off w
                           else tile_size))))"
proof (intro conjI impI)
  let ?G = "generate_tiles E self output_folder tile_size tiled_opt compress photometric s"
  {
    assume z: "tile_size = 0"
    obtain s' r where g: "generate_tiles E self output_folder 0 tiled_opt compress photometric s = (s', r)"
      by (cases "generate_tiles E self output_folder 0 tiled_opt compress photometric s")
    from generate_tiles_zero[OF g] g z
    show "snd ?G = Some (case error_before_ranges E self output_folder s of
                           Some err \<Rightarrow> err | None \<Rightarrow> ValueError)"
      and "files_created (fst ?G) = files_created s"
      and "files_written (fst ?G) = files_written s"
      by simp_all
  }
  {
    assume n: "tile_size < 0 \<and> 0 \<le> width self"
    obtain s' r where g: "?G = (s', r)" by (cases ?G)
    from n generate_tiles_neg[OF _ _ g]
    show "snd ?G = error_before_ranges E self output_folder s"
      and "files_created (fst ?G) = files_created s"
      and "files_written (fst ?G) = files_written s"
      using g by simp_all
  }
  {
    assume p: "0 < tile_size"
    obtain ws where ws: "tile_windows (width self) (height self) tile_size = Inr ws"
      using tile_windows_pos[OF p] by blast
    have "\<forall>w\<in>set ws.
           0 < win_width w \<and> 0 < win_height w \<and>
           win_width w = (if width self - col_off w < tile_size then width self - col_off w
                          else tile_size) \<and>
           win_height w = (if height self - row_off w < tile_size then height self - row_off w
                           else tile_size)"
      using window_in_bounds[OF p ws] window_clipped[OF p ws] by blast
    with ws show "\<exists>ws. tile_windows (width self) (height self) tile_size = Inr ws \<and>
        (\<forall>w\<in>set ws.
           0 < win_width w \<and> 0 < win_height w \<and>
           win_width w = (if width self - col_off w < tile_size then width self - col_off w
                          else tile_size) \<and>
           win_height w = (if height self - row_off w < tile_size then height self - row_off w
                           else tile_size))" by blast
  }
qed

lemma ex_error_before_ranges:
  "error_before_ranges ex_env ex_raster ''tiles'' ex_world = None"
  "error_before_ranges ex_env ex_raster [] ex_world = Some FileNotFoundError"
  "error_before_ranges ex_env ex_raster ''/readonly/out'' ex_world = Some OSError"
  by (simp_all add: error_before_ranges_def make_output_folder_def os_path_exists_def
        os_makedirs_def ex_env_def ex_raster_def)

theorem tile_size_policy_witness:
  "(snd (generate_tiles ex_env ex_raster ''tiles'' 0 False ''JPEG'' ''RGB'' ex_world) = Some ValueError \<and>
    files_created (fst (generate_tiles ex_env ex_raster ''tiles'' 0 False ''JPEG'' ''RGB'' ex_world)) = [] \<and>
    files_written (fst (generate_tiles ex_env ex_raster ''tiles'' 0 False ''JPEG'' ''RGB'' ex_world)) = []) \<and>
   (snd (generate_tiles ex_env ex_raster [] 0 False ''JPEG'' ''RGB'' ex_world) = Some FileNotFoundError \<and>
    files_created (fst (generate_tiles ex_env ex_raster [] 0 False ''JPEG'' ''RGB'' ex_world)) = [] \<and>
    files_written (fst (generate_tiles ex_env ex_raster [] 0 False ''JPEG'' ''RGB'' ex_world)) = []) \<and>
   ((- 1 :: int) < 0 \<and> 0 \<le> width ex_raster \<and>
    snd (generate_tiles ex_env ex_raster ''tiles'' (- 1) False ''JPEG'' ''RGB'' ex_world) = None \<and>
    files_created (fst (generate_tiles ex_env ex_raster ''tiles'' (- 1) False ''JPEG'' ''RGB'' ex_world)) = [] \<and>
    files_written (fst (generate_tiles ex_env ex_raster ''tiles'' (- 1) False ''JPEG'' ''RGB'' ex_world)) = []) \<and>
   (snd (generate_tiles ex_env ex_raster ''/readonly/out'' (- 1) False ''JPEG'' ''RGB'' ex_world) = Some OSError \<and>
    files_created (fst (generate_tiles ex_env ex_raster ''/readonly/out'' (- 1) False ''JPEG'' ''RGB'' ex_world)) = [] \<and>
    files_written (fst (generate_tiles ex_env ex_raster ''/readonly/out'' (- 1) False ''JPEG'' ''RGB'' ex_world)) = []) \<and>
   ((0 :: int) < 2 \<and>
    (\<exists>ws. tile_windows (width ex_raster) (height ex_raster) 2 = Inr ws \<and>
        (\<forall>w\<in>set ws.
           0 < win_width w \<and> 0 < win_height w \<and>
           win_width w = (if width ex_raster - col_off w < 2 then width ex_raster - col_off w else 2) \<and>
           win_height w = (if height ex_raster - row_off w < 2 then height ex_raster - row_off w else 2))))"
  using tile_size_policy[where tile_size = "0" and E = ex_env and self = ex_raster and s = ex_world
          and output_folder = "''tiles''" and tiled_opt = False and compress = "''JPEG''"
          and photometric = "''RGB''"]
        tile_size_policy[where tile_size = "0" and E = ex_env and self = ex_raster and s = ex_world
          and output_folder = "[]" and tiled_opt = False and compress = "''JPEG''"
          and photometric = "''RGB''"]
        tile_size_policy[where tile_size = "- 1" and E = ex_env and self = ex_raster and s = ex_world
          and output_folder = "''tiles''" and tiled_opt = False and compress = "''JPEG''"
          and photometric = "''RGB''"]
        tile_size_policy[where tile_size = "- 1" and E = ex_env and self = ex_raster and s = ex_world
          and output_folder = "''/readonly/out''" and tiled_opt = False and compress = "''JPEG''"
          and photometric = "''RGB''"]
        tile_size_policy[where tile_size = 2 and self = ex_raster]
  by (simp add: ex_error_before_ranges) (simp add: ex_raster_def ex_world_def)

text \<open>
  Claim C5, as stated, fails: with tile size \<open>-1\<close> the call raises nothing.
\<close>

theorem negative_tile_size_no_error:
  "snd (generate_tiles ex_env ex_raster ''tiles'' (- 1) False ''JPEG'' ''RGB'' ex_world) = None"
  by (simp add: generate_tiles_def make_output_folder_def os_path_exists_def os_makedirs_def
        tile_windows_neg rasterio_open_cases close_handle_def ex_env_def ex_raster_def)

section \<open>Properties of merge_tiles\<close>

lemma open_all_effect:
  "open_all E fps srcs s = (srcs', s1, r) \<Longrightarrow>
   \<exists>new. srcs' = srcs @ new \<and>
         handles_opened s1 = handles_opened s @ map ds_handle new \<and>
         handles_closed s1 = handles_closed s \<and>
         dirs_made s1 = dirs_made s \<and>
         files_created s1 = files_created s \<and>
         files_written s1 = files_written s \<and>
         printed s1 = printed s"
proof (induction fps arbitrary: srcs s)
  case Nil
  then show ?case by simp
next
  case (Cons fp fps)
  show ?case
  proof (cases "open_read E fp")
    case (Inl err)
    with Cons.prems show ?thesis by (simp add: rasterio_open_cases)
  next
    case (Inr d)
    let ?h = "length (handles_opened s)"
    let ?s = "s\<lparr>handles_opened := handles_opened s @ [?h]\<rparr>"
    let ?d = "d\<lparr>ds_handle := ?h\<rparr>"
    from Cons.prems Inr have "open_all E fps (srcs @ [?d]) ?s = (srcs', s1, r)"
      by (simp add: rasterio_open_cases)
    from Cons.IH[OF this] obtain new where
      "srcs' = (srcs @ [?d]) @ new"
      "handles_opened s1 = handles_opened ?s @ map ds_handle new"
      "handles_closed s1 = handles_closed ?s"
      "dirs_made s1 = dirs_made ?s"
      "files_created s1 = files_created ?s"
      "files_written s1 = files_written ?s"
      "printed s1 = printed ?s" by blast
    then show ?thesis by (intro exI[of _ "?d # new"]) simp
  qed
qed

lemma close_all_effect:
  "handles_closed (close_all srcs s) = handles_closed s @ map ds_handle srcs \<and>
   handles_opened (close_all srcs s) = handles_opened s \<and>
   dirs_made (close_all srcs s) = dirs_made s \<and>
   files_created (close_all srcs s) = files_created s \<and>
   files_written (close_all srcs s) = files_written s \<and>
   printed (close_all srcs s) = printed s"
  by (induction srcs arbitrary: s) (simp_all add: close_handle_def)

lemma save_handles:
  "save E p d prof s = (s1, r) \<Longrightarrow>
   \<exists>hs. handles_opened s1 = handles_opened s @ hs \<and> handles_closed s1 = handles_closed s @ hs"
  by (auto simp: save_def Let_def close_handle_def split: option.splits)

lemma mosaic_and_write_handles:
  "mosaic_and_write E self srcs p s = (s1, r) \<Longrightarrow>
   \<exists>hs. handles_opened s1 = handles_opened s @ hs \<and> handles_closed s1 = handles_closed s @ hs"
  by (auto simp: mosaic_and_write_def split: sum.splits list.splits dest: save_handles)

lemma merge_tiles_handles:
  "\<exists>inputs dest.
     handles_opened (fst (merge_tiles E self input_folder output_path s)) =
       handles_opened s @ inputs @ dest \<and>
     handles_closed (fst (merge_tiles E self input_folder output_path s)) =
       handles_closed s @ dest @ inputs"
proof (cases "glob E (path_join input_folder ''*.tif'') = []")
  case True
  then show ?thesis by (simp add: merge_tiles_def)
next
  case False
  obtain srcs s1 r1 where oa: "open_all E (glob E (path_join input_folder ''*.tif'')) [] s = (srcs, s1, r1)"
    by (cases "open_all E (glob E (path_join input_folder ''*.tif'')) [] s") auto
  from open_all_effect[OF oa] have
    o1: "handles_opened s1 = handles_opened s @ map ds_handle srcs"
    and c1: "handles_closed s1 = handles_closed s" by auto
  obtain s2 r2 where tr: "(case r1 of Some err \<Rightarrow> (s1, Some err)
                          | None \<Rightarrow> mosaic_and_write E self srcs output_path s1) = (s2, r2)"
    by (cases "(case r1 of Some err \<Rightarrow> (s1, Some err)
                | None \<Rightarrow> mosaic_and_write E self srcs output_path s1)") auto
  have "\<exists>hs. handles_opened s2 = handles_opened s1 @ hs \<and> handles_closed s2 = handles_closed s1 @ hs"
  proof (cases r1)
    case None
    with tr show ?thesis using mosaic_and_write_handles by simp
  next
    case (Some err)
    with tr show ?thesis by auto
  qed
  then obtain hs where
    o2: "handles_opened s2 = handles_opened s1 @ hs" and c2: "handles_closed s2 = handles_closed s1 @ hs"
    by blast
  let ?s3 = "(case r2 of Some err \<Rightarrow> s2\<lparr>printed := printed s2 @ [err]\<rparr> | None \<Rightarrow> s2)"
  have o3: "handles_opened ?s3 = handles_opened s2" and c3: "handles_closed ?s3 = handles_closed s2"
    by (simp_all split: option.splits)
  have m: "fst (merge_tiles E self input_folder output_path s) = close_all srcs ?s3"
    using False oa tr by (simp add: merge_tiles_def Let_def)
  show ?thesis
    unfolding m
    by (intro exI[of _ "map ds_handle srcs"] exI[of _ hs])
       (simp add: close_all_effect o1 c1 o2 c2 o3 c3)
qed

text \<open>
  Claim C6. Whatever the collaborators do (a file that does not open, a merge or a write
  that fails), \<open>merge_tiles\<close> raises nothing and every handle opened during the call is
  closed during the call: the handles opened between the state before and the state after
  are those of the inputs followed by that of the output file, if it was opened, and the
  handles closed are the same ones, the output file's first.
\<close>

theorem merge_tiles_closes_every_handle:
  "snd (merge_tiles E self input_folder output_path s) = None \<and>
   (\<exists>inputs dest.
      handles_opened (fst (merge_tiles E self input_folder output_path s)) =
        handles_opened s @ inputs @ dest \<and>
      handles_closed (fst (merge_tiles E self input_folder output_path s)) =
        handles_closed s @ dest @ inputs \<and>
      opened_during s (fst (merge_tiles E self input_folder output_path s)) = inputs @ dest \<and>
      closed_during s (fst (merge_tiles E self input_folder output_path s)) = dest @ inputs) \<and>
   set (opened_during s (fst (merge_tiles E self input_folder output_path s))) =
     set (closed_during s (fst (merge_tiles E self input_folder output_path s)))"
proof -
  have "snd (merge_tiles E self input_folder output_path s) = None"
    by (simp add: merge_tiles_def Let_def split: prod.splits)
  moreover
  obtain inputs dest where
    "handles_opened (fst (merge_tiles E self input_folder output_path s)) =
       handles_opened s @ inputs @ dest"
    "handles_closed (fst (merge_tiles E self input_folder output_path s)) =
       handles_closed s @ dest @ inputs"
    using merge_tiles_handles by blast
  ultimately show ?thesis
    by (auto simp: opened_during_def closed_during_def)
qed

text \<open>
  Claim C7. When the listing of the input folder is empty, \<open>merge_tiles\<close> returns
  normally and leaves the state as it was: no handle is opened, no file created or
  written, nothing printed.
\<close>

theorem empty_merge_is_noop:
  "glob E (path_join input_folder ''*.tif'') = [] \<Longrightarrow>
   merge_tiles E self input_folder output_path s = (s, None)"
  by (simp add: merge_tiles_def)

lemma ex_merge_broken:
  "merge_tiles ex_env ex_raster ''broken'' ''out.tif'' ex_world =
     (ex_world\<lparr>handles_opened := [0], handles_closed := [0], printed := [RasterioIOError]\<rparr>, None)"
  by (simp add: merge_tiles_def path_join_def ex_env_def ex_world_def rasterio_open_cases
        close_handle_def Let_def)

lemma ex_merge_tiles:
  "merge_tiles ex_env ex_raster ''tiles'' ''out.tif'' ex_world =
     (ex_world\<lparr>handles_opened := [0, 1, 2, 3], handles_closed := [3, 0, 1, 2],
        files_created := [(''out.tif'', mosaic_meta ex_raster (ex_dataset\<lparr>ds_handle := 0\<rparr>) ex_mosaic ex_transform)],
        files_written := [(''out.tif'', ex_mosaic)]\<rparr>, None)"
  by (simp add: merge_tiles_def path_join_def ex_env_def ex_world_def rasterio_open_cases
        close_handle_def Let_def mosaic_and_write_def save_def)

theorem merge_tiles_closes_every_handle_witness:
  "opened_during ex_world (fst (merge_tiles ex_env ex_raster ''broken'' ''out.tif'' ex_world)) = [0] \<and>
   closed_during ex_world (fst (merge_tiles ex_env ex_raster ''broken'' ''out.tif'' ex_world)) = [0] \<and>
   printed (fst (merge_tiles ex_env ex_raster ''broken'' ''out.tif'' ex_world)) = [RasterioIOError] \<and>
   snd (merge_tiles ex_env ex_raster ''broken'' ''out.tif'' ex_world) = None \<and>
   set (opened_during ex_world (fst (merge_tiles ex_env ex_raster ''broken'' ''out.tif'' ex_world))) =
     set (closed_during ex_world (fst (merge_tiles ex_env ex_raster ''broken'' ''out.tif'' ex_world))) \<and>
   opened_during ex_world (fst (merge_tiles ex_env ex_raster ''tiles'' ''out.tif'' ex_world)) = [0, 1, 2, 3] \<and>
   closed_during ex_world (fst (merge_tiles ex_env ex_raster ''tiles'' ''out.tif'' ex_world)) = [3, 0, 1, 2] \<and>
   set (opened_during ex_world (fst (merge_tiles ex_env ex_raster ''tiles'' ''out.tif'' ex_world))) =
     set (closed_during ex_world (fst (merge_tiles ex_env ex_raster ''tiles'' ''out.tif'' ex_world)))"
  using merge_tiles_closes_every_handle[of ex_env ex_raster "''broken''" "''out.tif''" ex_world]
        merge_tiles_closes_every_handle[of ex_env ex_raster "''tiles''" "''out.tif''" ex_world]
  by (simp add: ex_merge_broken ex_merge_tiles opened_during_def closed_during_def)
     (simp add: ex_world_def)

theorem empty_merge_is_noop_witness:
  "glob ex_env (path_join ''empty'' ''*.tif'') = [] \<and>
   merge_tiles ex_env ex_raster ''empty'' ''out.tif'' ex_world = (ex_world, None) \<and>
   handles_opened ex_world = [] \<and> files_created ex_world = [] \<and> files_written ex_world = []"
proof -
  have g: "glob ex_env (path_join ''empty'' ''*.tif'') = []"
    by (simp add: ex_env_def path_join_def)
  from empty_merge_is_noop[OF g, of ex_raster "''out.tif''" ex_world] g
  show ?thesis by (simp add: ex_world_def)
qed

lemma open_all_first:
  assumes "open_all E (fp # fps) [] s = (srcs, s1, None)"
  shows "\<exists>d0 rest. open_read E fp = Inr d0 \<and>
           srcs = d0\<lparr>ds_handle := length (handles_opened s)\<rparr> # rest"
proof (cases "open_read E fp")
  case (Inl err)
  with assms show ?thesis by (simp add: rasterio_open_cases)
next
  case (Inr d)
  let ?h = "length (handles_opened s)"
  from assms Inr have
    "open_all E fps ([] @ [d\<lparr>ds_handle := ?h\<rparr>]) (s\<lparr>handles_opened := handles_opened s @ [?h]\<rparr>)
       = (srcs, s1, None)"
    by (simp add: rasterio_open_cases)
  from open_all_effect[OF this] obtain new where "srcs = ([] @ [d\<lparr>ds_handle := ?h\<rparr>]) @ new"
    by blast
  with Inr show ?thesis by simp
qed

lemma Raster_init_fields:
  assumes "Raster_init E fp s = (s', Inr self)"
  shows "\<exists>dc. open_read E fp = Inr dc \<and>
           compression self = ds_compression dc \<and>
           tiled self = ds_is_tiled dc \<and>
           blockxsize self = dict_get (ds_profile dc) ''blockxsize'' PyNone \<and>
           blockysize self = dict_get (ds_profile dc) ''blockysize'' PyNone \<and>
           ext self = ''.tif''"
  using assms
  by (cases "open_read E fp") (auto simp: Raster_init_def rasterio_open_cases)

lemma mosaic_meta_entries:
  "mosaic_meta self src0 mosaic out_trans ''driver'' = Some (PyStr ''GTiff'') \<and>
   mosaic_meta self src0 mosaic out_trans ''height'' = Some (PyInt (nd_height mosaic)) \<and>
   mosaic_meta self src0 mosaic out_trans ''width'' = Some (PyInt (nd_width mosaic)) \<and>
   mosaic_meta self src0 mosaic out_trans ''transform'' = Some (PyAffine out_trans) \<and>
   mosaic_meta self src0 mosaic out_trans ''compress'' = Some (compression self) \<and>
   mosaic_meta self src0 mosaic out_trans ''tiled'' = Some (PyBool (tiled self)) \<and>
   mosaic_meta self src0 mosaic out_trans ''blockxsize'' = Some (blockxsize self) \<and>
   mosaic_meta self src0 mosaic out_trans ''blockysize'' = Some (blockysize self) \<and>
   (\<forall>k. k \<notin> {''driver'', ''height'', ''width'', ''transform'', ''compress'', ''tiled'',
               ''blockxsize'', ''blockysize''} \<longrightarrow>
        mosaic_meta self src0 mosaic out_trans k = ds_meta src0 k)"
  by (simp add: mosaic_meta_def)

lemma merge_tiles_success_files:
  assumes g: "glob E (path_join input_folder ''*.tif'') = fp # fps"
    and oa: "open_all E (fp # fps) [] s = (src0 # rest, s1, None)"
    and mg: "merge E (src0 # rest) = Inr (mosaic, out_trans)"
    and ow: "open_write E output_path (mosaic_meta self src0 mosaic out_trans) = None"
    and wd: "write_data E output_path mosaic = None"
  shows "files_created (fst (merge_tiles E self input_folder output_path s)) =
           files_created s @ [(output_path, mosaic_meta self src0 mosaic out_trans)] \<and>
         files_written (fst (merge_tiles E self input_folder output_path s)) =
           files_written s @ [(output_path, mosaic)]"
proof -
  from open_all_effect[OF oa] have f1: "files_created s1 = files_created s"
    "files_written s1 = files_written s" by auto
  show ?thesis
    using g oa mg ow wd f1
    by (simp add: merge_tiles_def Let_def mosaic_and_write_def save_def close_handle_def
          close_all_effect)
qed

text \<open>
  Claim C10. When every input opens, the merge succeeds and the mosaic is written, the
  file created at the output path has this metadata: the driver is \<open>GTiff\<close>; height, width
  and transform are those of the mosaic; compression, the tiled flag and the two block
  sizes are those of the raster object, that is, of the file it was built from; every
  other entry is that of the first opened input.
\<close>

theorem mosaic_metadata_sources:
  assumes init: "Raster_init E0 path s0 = (s0', Inr self)"
    and g: "glob E (path_join input_folder ''*.tif'') = fp # fps"
    and oa: "open_all E (fp # fps) [] s = (srcs, s1, None)"
    and mg: "merge E srcs = Inr (mosaic, out_trans)"
    and ow: "open_write E output_path (mosaic_meta self (hd srcs) mosaic out_trans) = None"
    and wd: "write_data E output_path mosaic = None"
  shows "\<exists>dc d0 P.
           open_read E0 path = Inr dc \<and> open_read E fp = Inr d0 \<and>
           files_created (fst (merge_tiles E self input_folder output_path s)) =
             files_created s @ [(output_path, P)] \<and>
           files_written (fst (merge_tiles E self input_folder output_path s)) =
             files_written s @ [(output_path, mosaic)] \<and>
           P ''driver'' = Some (PyStr ''GTiff'') \<and>
           P ''height'' = Some (PyInt (nd_height mosaic)) \<and>
           P ''width'' = Some (PyInt (nd_width mosaic)) \<and>
           P ''transform'' = Some (PyAffine out_trans) \<and>
           P ''compress'' = Some (ds_compression dc) \<and>
           P ''tiled'' = Some (PyBool (ds_is_tiled dc)) \<and>
           P ''blockxsize'' = Some (dict_get (ds_profile dc) ''blockxsize'' PyNone) \<and>
           P ''blockysize'' = Some (dict_get (ds_profile dc) ''blockysize'' PyNone) \<and>
           (\<forall>k. k \<notin> {''driver'', ''height'', ''width'', ''transform'', ''compress'', ''tiled'',
                       ''blockxsize'', ''blockysize''} \<longrightarrow> P k = ds_meta d0 k)"
proof -
  from Raster_init_fields[OF init] obtain dc where dc:
    "open_read E0 path = Inr dc" "compression self = ds_compression dc"
    "tiled self = ds_is_tiled dc"
    "blockxsize self = dict_get (ds_profile dc) ''blockxsize'' PyNone"
    "blockysize self = dict_get (ds_profile dc) ''blockysize'' PyNone" by blast
  from open_all_first[OF oa] obtain d0 rest where d0:
    "open_read E fp = Inr d0" "srcs = d0\<lparr>ds_handle := length (handles_opened s)\<rparr> # rest"
    by blast
  let ?src0 = "d0\<lparr>ds_handle := length (handles_opened s)\<rparr>"
  let ?P = "mosaic_meta self ?src0 mosaic out_trans"
  have files: "files_created (fst (merge_tiles E self input_folder output_path s)) =
           files_created s @ [(output_path, ?P)] \<and>
         files_written (fst (merge_tiles E self input_folder output_path s)) =
           files_written s @ [(output_path, mosaic)]"
    using merge_tiles_success_files[OF g, of s ?src0 rest s1 mosaic out_trans output_path self]
      oa mg ow wd d0(2) by simp
  note e = mosaic_meta_entries[of self ?src0 mosaic out_trans]
  have "?P ''driver'' = Some (PyStr ''GTiff'')"
    "?P ''height'' = Some (PyInt (nd_height mosaic))"
    "?P ''width'' = Some (PyInt (nd_width mosaic))"
    "?P ''transform'' = Some (PyAffine out_trans)"
    "?P ''compress'' = Some (ds_compression dc)"
    "?P ''tiled'' = Some (PyBool (ds_is_tiled dc))"
    "?P ''blockxsize'' = Some (dict_get (ds_profile dc) ''blockxsize'' PyNone)"
    "?P ''blockysize'' = Some (dict_get (ds_profile dc) ''blockysize'' PyNone)"
    "\<forall>k. k \<notin> {''driver'', ''height'', ''width'', ''transform'', ''compress'', ''tiled'',
                       ''blockxsize'', ''blockysize''} \<longrightarrow> ?P k = ds_meta d0 k"
    using e dc(2-5) by simp_all
  with files dc(1) d0(1) show ?thesis by blast
qed

theorem mosaic_metadata_sources_witness:
  "Raster_init ex_env ''big.tif'' ex_world =
     (ex_world\<lparr>handles_opened := [0], handles_closed := [0]\<rparr>, Inr ex_raster) \<and>
   glob ex_env (path_join ''tiles'' ''*.tif'') = ''tiles/a.tif'' # [''tiles/b.tif'', ''tiles/c.tif''] \<and>
   open_all ex_env (''tiles/a.tif'' # [''tiles/b.tif'', ''tiles/c.tif'']) [] ex_world =
     ([ex_dataset\<lparr>ds_handle := 0\<rparr>, ex_dataset\<lparr>ds_handle := 1\<rparr>, ex_dataset\<lparr>ds_handle := 2\<rparr>],
      ex_world\<lparr>handles_opened := [0, 1, 2]\<rparr>, None) \<and>
   merge ex_env [ex_dataset\<lparr>ds_handle := 0\<rparr>, ex_dataset\<lparr>ds_handle := 1\<rparr>, ex_dataset\<lparr>ds_handle := 2\<rparr>] =
     Inr (ex_mosaic, ex_transform) \<and>
   (\<exists>dc d0 P.
      open_read ex_env ''big.tif'' = Inr dc \<and> open_read ex_env ''tiles/a.tif'' = Inr d0 \<and>
      files_created (fst (merge_tiles ex_env ex_raster ''tiles'' ''out.tif'' ex_world)) =
        files_created ex_world @ [(''out.tif'', P)] \<and>
      files_written (fst (merge_tiles ex_env ex_raster ''tiles'' ''out.tif'' ex_world)) =
        files_written ex_world @ [(''out.tif'', ex_mosaic)] \<and>
      P ''driver'' = Some (PyStr ''GTiff'') \<and>
      P ''height'' = Some (PyInt (nd_height ex_mosaic)) \<and>
      P ''width'' = Some (PyInt (nd_width ex_mosaic)) \<and>
      P ''transform'' = Some (PyAffine ex_transform) \<and>
      P ''compress'' = Some (ds_compression dc) \<and>
      P ''tiled'' = Some (PyBool (ds_is_tiled dc)) \<and>
      P ''blockxsize'' = Some (dict_get (ds_profile dc) ''blockxsize'' PyNone) \<and>
      P ''blockysize'' = Some (dict_get (ds_profile dc) ''blockysize'' PyNone) \<and>
      (\<forall>k. k \<notin> {''driver'', ''height'', ''width'', ''transform'', ''compress'', ''tiled'',
                  ''blockxsize'', ''blockysize''} \<longrightarrow> P k = ds_meta d0 k))"
proof -
  let ?srcs = "[ex_dataset\<lparr>ds_handle := 0\<rparr>, ex_dataset\<lparr>ds_handle := 1\<rparr>, ex_dataset\<lparr>ds_handle := 2\<rparr>]"
  have h1: "Raster_init ex_env ''big.tif'' ex_world =
     (ex_world\<lparr>handles_opened := [0], handles_closed := [0]\<rparr>, Inr ex_raster)"
    by (simp add: Raster_init_def rasterio_open_cases ex_env_def ex_world_def ex_raster_def
          ex_dataset_def ex_meta_def dict_get_def close_handle_def)
  have h2: "glob ex_env (path_join ''tiles'' ''*.tif'') = ''tiles/a.tif'' # [''tiles/b.tif'', ''tiles/c.tif'']"
    by (simp add: ex_env_def path_join_def)
  have h3: "open_all ex_env (''tiles/a.tif'' # [''tiles/b.tif'', ''tiles/c.tif'']) [] ex_world =
     (?srcs, ex_world\<lparr>handles_opened := [0, 1, 2]\<rparr>, None)"
    by (simp add: rasterio_open_cases ex_env_def ex_world_def)
  have h4: "merge ex_env ?srcs = Inr (ex_mosaic, ex_transform)"
    by (simp add: ex_env_def)
  have h5: "open_write ex_env ''out.tif'' (mosaic_meta ex_raster (hd ?srcs) ex_mosaic ex_transform) = None"
    by (simp add: ex_env_def)
  have h6: "write_data ex_env ''out.tif'' ex_mosaic = None"
    by (simp add: ex_env_def)
  from mosaic_metadata_sources[OF h1 h2 h3 h4 h5 h6] h1 h2 h3 h4 show ?thesis by blast
qed

end
